theory Spec2Isabelle
  imports Main "HOL-Library.Sublist"
begin

section \<open>The article-to-Markdown serializer of src/App.js\<close>

text \<open>
  The theory embeds \<^verbatim>\<open>formatArticleAsMarkdown\<close> (src/App.js, lines 58 to 98) and the
  file-name expression of \<^verbatim>\<open>handleDownloadArticle\<close> (line 113).

  The argument of the serializer is the JSON object delivered by the generation service.
  Every property that the code reads may be missing from that object, and a missing
  property reads as \<^verbatim>\<open>undefined\<close>: each field is therefore an \<open>option\<close>, with
  \<open>None\<close> for the missing property. Text fields hold strings, \<^verbatim>\<open>sections\<close>,
  \<^verbatim>\<open>content\<close> and \<^verbatim>\<open>faq_section\<close> hold arrays of objects. A string is a list of
  characters, one \<open>char\<close> for each code unit of the JavaScript string; a \<open>char\<close> has
  256 values, so the strings of the model are those whose code units lie below 256. The
  serializer copies and concatenates strings and never looks inside one.

  Calling \<^verbatim>\<open>forEach\<close> on \<^verbatim>\<open>undefined\<close> throws a \<^verbatim>\<open>TypeError\<close>; the serializer
  has no handler, so the exception leaves the function. The result type is
  \<open>fault + string\<close>, with \<open>Inl\<close> for the exception.
\<close>

subsection \<open>Data model\<close>

datatype fault = TypeError

record content_block =
  block_type :: "string option"
  block_value :: "string option"
  url :: "string option"
  caption :: "string option"

record article_section =
  heading :: "string option"
  content :: "content_block list option"

record faq_entry =
  question :: "string option"
  answer :: "string option"

record article_record =
  title :: "string option"
  subtitle :: "string option"
  introduction :: "string option"
  sections :: "article_section list option"
  faq_section :: "faq_entry list option"
  conclusion :: "string option"

subsection \<open>JavaScript operators on an optional string\<close>

text \<open>
  \<^verbatim>\<open>if (v)\<close> and \<^verbatim>\<open>v && ...\<close>: a string is truthy unless it is empty,
  \<^verbatim>\<open>undefined\<close> is falsy.
\<close>

definition truthy :: "string option \<Rightarrow> bool" where
  "truthy v = (case v of None \<Rightarrow> False | Some s \<Rightarrow> s \<noteq> [])"

text \<open>\<^verbatim>\<open>v || d\<close>: the left operand when it is truthy, the right one otherwise.\<close>

definition or_default :: "string option \<Rightarrow> string \<Rightarrow> string" where
  "or_default v d = (case v of None \<Rightarrow> d | Some s \<Rightarrow> if s = [] then d else s)"

text \<open>
  A template-literal hole \<^verbatim>\<open>${v}\<close>: a string is spliced in as it is,
  \<^verbatim>\<open>undefined\<close> is spliced in as the nine characters of its name.
\<close>

definition interpolate :: "string option \<Rightarrow> string" where
  "interpolate v = (case v of None \<Rightarrow> ''undefined'' | Some s \<Rightarrow> s)"

text \<open>The two line feeds \<^verbatim>\<open>\n\n\<close> that close every template of the serializer.\<close>

definition blank_line :: string where
  "blank_line = [CHR 0x0A, CHR 0x0A]"

subsection \<open>formatArticleAsMarkdown\<close>

text \<open>
  The body of the inner \<^verbatim>\<open>forEach\<close> (lines 76 to 80): the local variable
  \<^verbatim>\<open>markdown\<close> before the block, and after it.
\<close>

definition append_block :: "string \<Rightarrow> content_block \<Rightarrow> string" where
  "append_block markdown b =
     (if block_type b = Some ''text'' then
        markdown @ interpolate (block_value b) @ blank_line
      else if block_type b = Some ''image'' \<and> truthy (url b) then
        markdown @ ''!['' @ or_default (caption b) ''Image'' @ '']('' @
          interpolate (url b) @ '')'' @ blank_line
      else markdown)"

text \<open>
  The body of the outer \<^verbatim>\<open>forEach\<close> (lines 72 to 81). The heading is appended
  before \<^verbatim>\<open>section.content.forEach\<close> is evaluated, which throws when
  \<^verbatim>\<open>content\<close> is missing.
\<close>

definition append_section :: "string \<Rightarrow> article_section \<Rightarrow> fault + string" where
  "append_section markdown s =
     (let markdown1 =
            (if truthy (heading s) then markdown @ ''### '' @ interpolate (heading s) @ blank_line
             else markdown)
      in case content s of
           None \<Rightarrow> Inl TypeError
         | Some blocks \<Rightarrow> Inr (foldl append_block markdown1 blocks))"

text \<open>\<^verbatim>\<open>articleData.sections.forEach\<close>: the first exception ends the loop.\<close>

fun append_sections :: "string \<Rightarrow> article_section list \<Rightarrow> fault + string" where
  "append_sections markdown [] = Inr markdown"
| "append_sections markdown (s # ss) =
     (case append_section markdown s of
        Inl e \<Rightarrow> Inl e
      | Inr markdown' \<Rightarrow> append_sections markdown' ss)"

text \<open>The body of the \<^verbatim>\<open>faq_section.forEach\<close> (lines 87 and 88).\<close>

definition append_faq :: "string \<Rightarrow> faq_entry \<Rightarrow> string" where
  "append_faq markdown faq =
     (let markdown1 = markdown @ ''* **Q:** '' @ interpolate (question faq) @ [CHR 0x0A]
      in markdown1 @ ''  **A:** '' @ interpolate (answer faq) @ blank_line)"

text \<open>
  The whole function. \<open>None\<close> is the \<^verbatim>\<open>null\<close> that the component state
  \<^verbatim>\<open>article\<close> holds before the first request.
\<close>

definition formatArticleAsMarkdown :: "article_record option \<Rightarrow> fault + string" where
  "formatArticleAsMarkdown articleData =
     (case articleData of
        None \<Rightarrow> Inr []
      | Some a \<Rightarrow>
          (let markdown0 = ''# '' @ or_default (title a) ''Untitled Article'' @ blank_line;
               markdown1 =
                 (if truthy (subtitle a) then markdown0 @ ''## '' @ interpolate (subtitle a) @ blank_line
                  else markdown0);
               markdown2 =
                 (if truthy (introduction a) then markdown1 @ interpolate (introduction a) @ blank_line
                  else markdown1)
           in case sections a of
                None \<Rightarrow> Inl TypeError
              | Some ss \<Rightarrow>
                  (case append_sections markdown2 ss of
                     Inl e \<Rightarrow> Inl e
                   | Inr markdown3 \<Rightarrow>
                       (let markdown4 =
                              (case faq_section a of
                                 None \<Rightarrow> markdown3
                               | Some faqs \<Rightarrow>
                                   if length faqs > 0 then
                                     foldl append_faq
                                       (markdown3 @ ''## Frequently Asked Questions'' @ blank_line) faqs
                                   else markdown3);
                            markdown5 =
                              (if truthy (conclusion a) then
                                 (markdown4 @ ''## Conclusion'' @ blank_line) @
                                   interpolate (conclusion a) @ blank_line
                               else markdown4)
                        in Inr markdown5))))"

subsection \<open>The file name of handleDownloadArticle\<close>

text \<open>
  Line 113:
  \<^verbatim>\<open>(article.title || 'article').replace(/[^a-z0-9]/gi, '_').toLowerCase()\<close>
  followed by \<^verbatim>\<open>.md\<close>. The line is reached only with a non-null article (the guard of
  line 104 returns before it otherwise).

  Under the flag \<^verbatim>\<open>i\<close> the class \<^verbatim>\<open>[a-z0-9]\<close> holds the ASCII letters of both cases
  and the ASCII digits; the negated class matches every other code unit.
\<close>

definition matches_alnum :: "char \<Rightarrow> bool" where
  "matches_alnum c =
     (let n = (of_char c :: nat)
      in (97 \<le> n \<and> n \<le> 122) \<or> (65 \<le> n \<and> n \<le> 90) \<or> (48 \<le> n \<and> n \<le> 57))"

definition replace_non_alnum :: "string \<Rightarrow> string" where
  "replace_non_alnum s = map (\<lambda>c. if matches_alnum c then c else CHR ''_'') s"

text \<open>
  \<^verbatim>\<open>toLowerCase\<close> on the code units below 256: the upper-case letters are
  \<^verbatim>\<open>A\<close> to \<^verbatim>\<open>Z\<close> and the code units 192 to 222 without the multiplication sign 215,
  and each lower-case letter lies 32 above.
\<close>

definition toLowerCase_char :: "char \<Rightarrow> char" where
  "toLowerCase_char c =
     (let n = (of_char c :: nat)
      in if (65 \<le> n \<and> n \<le> 90) \<or> (192 \<le> n \<and> n \<le> 222 \<and> n \<noteq> 215)
         then char_of (n + 32) else c)"

definition toLowerCase :: "string \<Rightarrow> string" where
  "toLowerCase s = map toLowerCase_char s"

definition download_filename :: "article_record \<Rightarrow> string" where
  "download_filename a =
     toLowerCase (replace_non_alnum (or_default (title a) ''article'')) @ ''.md''"

section \<open>Vocabulary of the specification\<close>

subsection \<open>Well-formed and valid articles\<close>

text \<open>
  The two structural conditions that the loops of the serializer rely on:
  \<^verbatim>\<open>sections\<close> is there, and every section has its \<^verbatim>\<open>content\<close>.
\<close>

definition has_content :: "article_section \<Rightarrow> bool" where
  "has_content s = (content s \<noteq> None)"

definition well_formed :: "article_record \<Rightarrow> bool" where
  "well_formed a = (case sections a of None \<Rightarrow> False | Some ss \<Rightarrow> list_all has_content ss)"

text \<open>
  A valid article is an ArticleRecord of section 3 of the specification: the sequences
  \<^verbatim>\<open>sections\<close> and \<^verbatim>\<open>content\<close> are there, a text block has its \<^verbatim>\<open>value\<close>, and an
  entry of the FAQ has its \<^verbatim>\<open>question\<close> and its \<^verbatim>\<open>answer\<close>. The title, the
  subtitle, the introduction, the headings, the FAQ and the conclusion may be missing,
  and so may the \<^verbatim>\<open>url\<close> and the \<^verbatim>\<open>caption\<close> of an image block, which the claims
  consider.
\<close>

definition valid_block :: "content_block \<Rightarrow> bool" where
  "valid_block b = (if block_type b = Some ''text'' then block_value b \<noteq> None else True)"

definition valid_section :: "article_section \<Rightarrow> bool" where
  "valid_section s = (case content s of None \<Rightarrow> False | Some blocks \<Rightarrow> list_all valid_block blocks)"

definition valid_faq :: "faq_entry \<Rightarrow> bool" where
  "valid_faq faq = (question faq \<noteq> None \<and> answer faq \<noteq> None)"

definition valid_article :: "article_record \<Rightarrow> bool" where
  "valid_article a =
     ((case sections a of None \<Rightarrow> False | Some ss \<Rightarrow> list_all valid_section ss) \<and>
      (case faq_section a of None \<Rightarrow> True | Some faqs \<Rightarrow> list_all valid_faq faqs))"

subsection \<open>What each element contributes\<close>

text \<open>
  The text that one pass of each loop body appends, as a function of the element alone.
  The lemmas of the next section show that the serializer returns the concatenation of
  these contributions.
\<close>

definition rendered_block :: "content_block \<Rightarrow> string" where
  "rendered_block b = append_block [] b"

definition rendered_heading :: "article_section \<Rightarrow> string" where
  "rendered_heading s =
     (if truthy (heading s) then ''### '' @ interpolate (heading s) @ blank_line else [])"

definition section_blocks :: "article_section \<Rightarrow> content_block list" where
  "section_blocks s = (case content s of None \<Rightarrow> [] | Some blocks \<Rightarrow> blocks)"

definition rendered_section :: "article_section \<Rightarrow> string" where
  "rendered_section s = rendered_heading s @ concat (map rendered_block (section_blocks s))"

definition rendered_head :: "article_record \<Rightarrow> string" where
  "rendered_head a =
     ''# '' @ or_default (title a) ''Untitled Article'' @ blank_line @
     (if truthy (subtitle a) then ''## '' @ interpolate (subtitle a) @ blank_line else []) @
     (if truthy (introduction a) then interpolate (introduction a) @ blank_line else [])"

definition article_sections :: "article_record \<Rightarrow> article_section list" where
  "article_sections a = (case sections a of None \<Rightarrow> [] | Some ss \<Rightarrow> ss)"

definition rendered_faq_entry :: "faq_entry \<Rightarrow> string" where
  "rendered_faq_entry faq =
     ''* **Q:** '' @ interpolate (question faq) @ [CHR 0x0A] @
     ''  **A:** '' @ interpolate (answer faq) @ blank_line"

definition rendered_faq :: "faq_entry list option \<Rightarrow> string" where
  "rendered_faq fs =
     (case fs of
        None \<Rightarrow> []
      | Some faqs \<Rightarrow>
          if faqs = [] then []
          else ''## Frequently Asked Questions'' @ blank_line @ concat (map rendered_faq_entry faqs))"

definition rendered_conclusion :: "string option \<Rightarrow> string" where
  "rendered_conclusion c =
     (if truthy c then ''## Conclusion'' @ blank_line @ interpolate c @ blank_line else [])"

definition rendered_article :: "article_record \<Rightarrow> string" where
  "rendered_article a =
     rendered_head a @ concat (map rendered_section (article_sections a)) @
     rendered_faq (faq_section a) @ rendered_conclusion (conclusion a)"

text \<open>Empty, or closed by the blank line.\<close>

definition blank_terminated :: "string \<Rightarrow> bool" where
  "blank_terminated s = (s = [] \<or> suffix blank_line s)"

subsection \<open>Text blocks in order\<close>

text \<open>
  \<open>in_order chunks out\<close>: the chunks occur in \<open>out\<close> one after the other, in the order
  of the list and without overlap.
\<close>

fun in_order :: "string list \<Rightarrow> string \<Rightarrow> bool" where
  "in_order [] out = True"
| "in_order (c # cs) out = (\<exists>pre post. out = pre @ c @ post \<and> in_order cs post)"

text \<open>The values of the text blocks of a section, and of an article, in input order.\<close>

definition text_values :: "content_block list \<Rightarrow> string list" where
  "text_values blocks =
     List.map_filter (\<lambda>b. if block_type b = Some ''text'' then block_value b else None) blocks"

definition article_text_values :: "article_record \<Rightarrow> string list" where
  "article_text_values a = concat (map (\<lambda>s. text_values (section_blocks s)) (article_sections a))"

subsection \<open>Blocks that the serializer passes over\<close>

text \<open>
  A block whose type is neither \<^verbatim>\<open>text\<close> nor \<^verbatim>\<open>image\<close>, or an image block whose
  \<^verbatim>\<open>url\<close> is missing.
\<close>

definition skipped_block :: "content_block \<Rightarrow> bool" where
  "skipped_block b =
     ((block_type b \<noteq> Some ''text'' \<and> block_type b \<noteq> Some ''image'') \<or>
      (block_type b = Some ''image'' \<and> url b = None))"

definition remove_skipped_section :: "article_section \<Rightarrow> article_section" where
  "remove_skipped_section s =
     s\<lparr>content := map_option (filter (\<lambda>b. \<not> skipped_block b)) (content s)\<rparr>"

definition remove_skipped :: "article_record \<Rightarrow> article_record" where
  "remove_skipped a = a\<lparr>sections := map_option (map remove_skipped_section) (sections a)\<rparr>"

subsection \<open>Image blocks whose url is the empty string\<close>

text \<open>
  The \<^verbatim>\<open>url\<close> of such a block is there and is falsy, so that the test of line 78 fails.
\<close>

definition empty_url_image :: "content_block \<Rightarrow> bool" where
  "empty_url_image b = (block_type b = Some ''image'' \<and> url b = Some [])"

definition remove_empty_url_section :: "article_section \<Rightarrow> article_section" where
  "remove_empty_url_section s =
     s\<lparr>content := map_option (filter (\<lambda>b. \<not> empty_url_image b)) (content s)\<rparr>"

definition remove_empty_url_images :: "article_record \<Rightarrow> article_record" where
  "remove_empty_url_images a =
     a\<lparr>sections := map_option (map remove_empty_url_section) (sections a)\<rparr>"

subsection \<open>Texts that do not end with a line feed\<close>








subsection \<open>The file name as claim C9 words it\<close>

text \<open>
  Every character outside the letters and digits becomes the underscore, every letter
  becomes its lower-case letter.
\<close>

definition sanitise_char :: "char \<Rightarrow> char" where
  "sanitise_char c =
     (let n = (of_char c :: nat)
      in if 65 \<le> n \<and> n \<le> 90 then char_of (n + 32)
         else if (97 \<le> n \<and> n \<le> 122) \<or> (48 \<le> n \<and> n \<le> 57) then c
         else CHR ''_'')"

text \<open>The base name falls back to \<^verbatim>\<open>article\<close> only when the title is missing.\<close>

definition claimed_filename :: "article_record \<Rightarrow> string" where
  "claimed_filename a =
     map sanitise_char (case title a of None \<Rightarrow> ''article'' | Some t \<Rightarrow> t) @ ''.md''"

section \<open>Example inputs\<close>

text \<open>The article of the example scenario of the specification.\<close>

definition mars_article :: article_record where
  "mars_article =
     \<lparr>title = Some ''Mars'', subtitle = None, introduction = None,
      sections = Some
        [\<lparr>heading = Some ''Intro'',
          content = Some
            [\<lparr>block_type = Some ''text'', block_value = Some ''Mars is red.'',
              url = None, caption = None\<rparr>]\<rparr>],
      faq_section = None, conclusion = None\<rparr>"

text \<open>An article that uses every kind of element.\<close>

definition full_article :: article_record where
  "full_article =
     \<lparr>title = Some ''Tea'', subtitle = Some ''A guide'', introduction = Some ''Hello.'',
      sections = Some
        [\<lparr>heading = Some ''One'',
          content = Some
            [\<lparr>block_type = Some ''text'', block_value = Some ''Green.'',
              url = None, caption = None\<rparr>,
             \<lparr>block_type = Some ''image'', block_value = None,
              url = Some ''http://x/a.png'', caption = Some ''Leaf''\<rparr>,
             \<lparr>block_type = Some ''video'', block_value = None,
              url = Some ''http://x/v.mp4'', caption = None\<rparr>,
             \<lparr>block_type = Some ''image'', block_value = None,
              url = None, caption = Some ''Lost''\<rparr>]\<rparr>,
         \<lparr>heading = None,
          content = Some
            [\<lparr>block_type = Some ''image'', block_value = None,
              url = Some ''http://x/b.png'', caption = None\<rparr>,
             \<lparr>block_type = Some ''text'', block_value = Some ''Black.'',
              url = None, caption = None\<rparr>]\<rparr>],
      faq_section = Some
        [\<lparr>question = Some ''Hot?'', answer = Some ''Yes.''\<rparr>,
         \<lparr>question = Some ''Iced?'', answer = Some ''Also.''\<rparr>],
      conclusion = Some ''Bye.''\<rparr>"

text \<open>An article whose only section has no \<^verbatim>\<open>content\<close>.\<close>

definition no_content_article :: article_record where
  "no_content_article =
     \<lparr>title = Some ''Mars'', subtitle = None, introduction = None,
      sections = Some [\<lparr>heading = Some ''Intro'', content = None\<rparr>],
      faq_section = None, conclusion = None\<rparr>"

text \<open>An article without \<^verbatim>\<open>sections\<close>.\<close>

definition no_sections_article :: article_record where
  "no_sections_article =
     \<lparr>title = Some ''Mars'', subtitle = None, introduction = None,
      sections = None, faq_section = None, conclusion = None\<rparr>"

text \<open>
  Two image blocks: the caption of the first and the \<^verbatim>\<open>url\<close> of the second are the
  empty string.
\<close>

definition empty_strings_article :: article_record where
  "empty_strings_article =
     \<lparr>title = Some ''Mars'', subtitle = None, introduction = None,
      sections = Some
        [\<lparr>heading = None,
          content = Some
            [\<lparr>block_type = Some ''image'', block_value = None,
              url = Some ''m.png'', caption = Some []\<rparr>,
             \<lparr>block_type = Some ''image'', block_value = None,
              url = Some [], caption = Some ''Pic''\<rparr>]\<rparr>],
      faq_section = None, conclusion = None\<rparr>"

text \<open>An article whose conclusion ends with a line feed.\<close>

definition trailing_line_feed_article :: article_record where
  "trailing_line_feed_article =
     \<lparr>title = Some ''T'', subtitle = None, introduction = None,
      sections = Some [], faq_section = None, conclusion = Some [CHR ''x'', CHR 0x0A]\<rparr>"

text \<open>An article without FAQ whose subtitle reads as the heading of the FAQ.\<close>

definition faq_subtitle_article :: article_record where
  "faq_subtitle_article =
     \<lparr>title = Some ''Mars'', subtitle = Some ''Frequently Asked Questions'',
      introduction = None, sections = Some [], faq_section = None, conclusion = None\<rparr>"

text \<open>An article whose title is the empty string.\<close>

definition empty_title_article :: article_record where
  "empty_title_article =
     \<lparr>title = Some [], subtitle = None, introduction = None,
      sections = Some [], faq_section = None, conclusion = None\<rparr>"

text \<open>An article whose title has upper-case letters, a space and a punctuation mark.\<close>

definition hello_article :: article_record where
  "hello_article =
     \<lparr>title = Some ''Hello World!'', subtitle = None, introduction = None,
      sections = Some [], faq_section = None, conclusion = None\<rparr>"

section \<open>The serializer in closed form\<close>

text \<open>
  Each loop threads the local variable \<^verbatim>\<open>markdown\<close> through its body. The lemmas of
  this section replace the threading by a concatenation: the serializer faults exactly on
  the articles that are not well formed, and returns \<open>rendered_article\<close> on the others.
\<close>

lemma foldl_append_block:
  "foldl append_block markdown blocks = markdown @ concat (map rendered_block blocks)"
proof (induction blocks arbitrary: markdown)
  case Nil
  show ?case by simp
next
  case (Cons b blocks)
  have "append_block markdown b = markdown @ rendered_block b"
    by (simp add: append_block_def rendered_block_def)
  with Cons show ?case by simp
qed

lemma append_section_rendered:
  "append_section markdown s =
     (if has_content s then Inr (markdown @ rendered_section s) else Inl TypeError)"
  by (cases "content s")
    (simp_all add: append_section_def has_content_def rendered_section_def rendered_heading_def
      section_blocks_def foldl_append_block)

lemma append_sections_rendered:
  "append_sections markdown ss =
     (if list_all has_content ss then Inr (markdown @ concat (map rendered_section ss))
      else Inl TypeError)"
  by (induction ss arbitrary: markdown) (simp_all add: append_section_rendered)

lemma foldl_append_faq:
  "foldl append_faq markdown faqs = markdown @ concat (map rendered_faq_entry faqs)"
  by (induction faqs arbitrary: markdown) (simp_all add: append_faq_def rendered_faq_entry_def)

lemma serialize_rendered:
  "formatArticleAsMarkdown (Some a) =
     (if well_formed a then Inr (rendered_article a) else Inl TypeError)"
proof (cases "sections a")
  case None
  then show ?thesis by (simp add: formatArticleAsMarkdown_def well_formed_def)
next
  case (Some ss)
  show ?thesis
  proof (cases "list_all has_content ss")
    case False
    with Some show ?thesis
      by (simp add: formatArticleAsMarkdown_def well_formed_def append_sections_rendered Let_def)
  next
    case True
    with Some show ?thesis
      by (cases "faq_section a")
        (simp_all add: formatArticleAsMarkdown_def well_formed_def append_sections_rendered
          Let_def rendered_article_def rendered_head_def article_sections_def rendered_faq_def
          rendered_conclusion_def foldl_append_faq)
  qed
qed

lemma valid_section_has_content: "valid_section s \<Longrightarrow> has_content s"
  by (cases "content s") (simp_all add: valid_section_def has_content_def)

lemma valid_article_well_formed: "valid_article a \<Longrightarrow> well_formed a"
  by (cases "sections a")
    (auto simp: valid_article_def well_formed_def list_all_iff valid_section_has_content)

subsection \<open>The examples, serialized\<close>

text \<open>The first output is the expected output of the example scenario of the specification.\<close>

lemma mars_article_output:
  "formatArticleAsMarkdown (Some mars_article) =
     Inr (''# Mars'' @ blank_line @ ''### Intro'' @ blank_line @ ''Mars is red.'' @ blank_line)"
  by (simp add: formatArticleAsMarkdown_def mars_article_def append_section_def
      append_block_def truthy_def or_default_def interpolate_def)

lemma full_article_output:
  "formatArticleAsMarkdown (Some full_article) =
     Inr (''# Tea'' @ blank_line @ ''## A guide'' @ blank_line @ ''Hello.'' @ blank_line @
          ''### One'' @ blank_line @ ''Green.'' @ blank_line @
          ''![Leaf](http://x/a.png)'' @ blank_line @
          ''![Image](http://x/b.png)'' @ blank_line @ ''Black.'' @ blank_line @
          ''## Frequently Asked Questions'' @ blank_line @
          ''* **Q:** Hot?'' @ [CHR 0x0A] @ ''  **A:** Yes.'' @ blank_line @
          ''* **Q:** Iced?'' @ [CHR 0x0A] @ ''  **A:** Also.'' @ blank_line @
          ''## Conclusion'' @ blank_line @ ''Bye.'' @ blank_line)"
  by (simp add: formatArticleAsMarkdown_def full_article_def append_section_def
      append_block_def append_faq_def truthy_def or_default_def interpolate_def)

lemma empty_strings_output:
  "formatArticleAsMarkdown (Some empty_strings_article) =
     Inr (''# Mars'' @ blank_line @ ''![Image](m.png)'' @ blank_line)"
  by (simp add: formatArticleAsMarkdown_def empty_strings_article_def append_section_def
      append_block_def truthy_def or_default_def interpolate_def)

lemma trailing_line_feed_output:
  "formatArticleAsMarkdown (Some trailing_line_feed_article) =
     Inr (''# T'' @ blank_line @ ''## Conclusion'' @ blank_line @ ''x'' @ [CHR 0x0A] @ blank_line)"
  by (simp add: formatArticleAsMarkdown_def trailing_line_feed_article_def truthy_def
      or_default_def interpolate_def)

lemma valid_mars_article: "valid_article mars_article"
  by (simp add: valid_article_def mars_article_def valid_section_def valid_block_def)

lemma valid_full_article: "valid_article full_article"
  by (simp add: valid_article_def full_article_def valid_section_def valid_block_def valid_faq_def)

lemma valid_empty_strings_article: "valid_article empty_strings_article"
  by (simp add: valid_article_def empty_strings_article_def valid_section_def valid_block_def)



subsection \<open>Every element ends with the blank line\<close>

lemma blank_terminated_append:
  "blank_terminated x \<Longrightarrow> blank_terminated y \<Longrightarrow> blank_terminated (x @ y)"
  by (auto simp: blank_terminated_def suffix_def)

lemma blank_terminated_concat:
  "(\<And>x. x \<in> set xs \<Longrightarrow> blank_terminated x) \<Longrightarrow> blank_terminated (concat xs)"
  by (induction xs) (simp_all add: blank_terminated_append, simp add: blank_terminated_def)

lemma suffix_blank_append:
  "suffix blank_line x \<Longrightarrow> blank_terminated y \<Longrightarrow> suffix blank_line (x @ y)"
  by (auto simp: blank_terminated_def suffix_def)

lemma blank_terminated_block: "blank_terminated (rendered_block b)"
  by (simp add: rendered_block_def append_block_def blank_terminated_def suffix_def)

lemma blank_terminated_heading: "blank_terminated (rendered_heading s)"
  by (simp add: rendered_heading_def blank_terminated_def suffix_def)

lemma blank_terminated_blocks: "blank_terminated (concat (map rendered_block blocks))"
  by (rule blank_terminated_concat) (auto simp: blank_terminated_block)

lemma blank_terminated_section: "blank_terminated (rendered_section s)"
  unfolding rendered_section_def
  by (intro blank_terminated_append blank_terminated_heading blank_terminated_blocks)

lemma blank_terminated_sections: "blank_terminated (concat (map rendered_section ss))"
  by (rule blank_terminated_concat) (auto simp: blank_terminated_section)

lemma blank_terminated_faq_entry: "blank_terminated (rendered_faq_entry faq)"
  by (simp add: rendered_faq_entry_def blank_terminated_def suffix_def)

lemma blank_terminated_faq: "blank_terminated (rendered_faq fs)"
proof (cases fs)
  case None
  then show ?thesis by (simp add: rendered_faq_def blank_terminated_def)
next
  case (Some faqs)
  have "blank_terminated (concat (map rendered_faq_entry faqs))"
    by (rule blank_terminated_concat) (auto simp: blank_terminated_faq_entry)
  moreover have "suffix blank_line (''## Frequently Asked Questions'' @ blank_line)"
    by (simp add: suffix_def)
  ultimately have "suffix blank_line
      ((''## Frequently Asked Questions'' @ blank_line) @ concat (map rendered_faq_entry faqs))"
    by (rule suffix_blank_append[rotated])
  with Some show ?thesis by (simp add: rendered_faq_def blank_terminated_def)
qed

lemma blank_terminated_conclusion: "blank_terminated (rendered_conclusion c)"
  by (simp add: rendered_conclusion_def blank_terminated_def suffix_def)

lemma rendered_head_shape:
  "\<exists>rest. rendered_head a = ''# '' @ or_default (title a) ''Untitled Article'' @ blank_line @ rest
     \<and> blank_terminated rest"
proof -
  let ?sub = "if truthy (subtitle a) then ''## '' @ interpolate (subtitle a) @ blank_line else []"
  let ?intro = "if truthy (introduction a) then interpolate (introduction a) @ blank_line else []"
  have "blank_terminated ?sub" "blank_terminated ?intro"
    by (simp_all add: blank_terminated_def suffix_def)
  then have "blank_terminated (?sub @ ?intro)" by (rule blank_terminated_append)
  moreover have "rendered_head a =
      ''# '' @ or_default (title a) ''Untitled Article'' @ blank_line @ (?sub @ ?intro)"
    by (simp add: rendered_head_def)
  ultimately show ?thesis by blast
qed

lemma rendered_article_shape:
  "\<exists>rest. rendered_article a = ''# '' @ or_default (title a) ''Untitled Article'' @ blank_line @ rest
     \<and> blank_terminated rest"
proof -
  obtain r where r: "rendered_head a = ''# '' @ or_default (title a) ''Untitled Article'' @ blank_line @ r"
    and br: "blank_terminated r"
    using rendered_head_shape by blast
  let ?tail = "concat (map rendered_section (article_sections a)) @
     rendered_faq (faq_section a) @ rendered_conclusion (conclusion a)"
  have "blank_terminated ?tail"
    by (intro blank_terminated_append blank_terminated_sections blank_terminated_faq
        blank_terminated_conclusion)
  with br have "blank_terminated (r @ ?tail)" by (rule blank_terminated_append)
  moreover have "rendered_article a =
      ''# '' @ or_default (title a) ''Untitled Article'' @ blank_line @ (r @ ?tail)"
    by (simp add: rendered_article_def r)
  ultimately show ?thesis by blast
qed

lemma suffix_blank_head: "suffix blank_line (rendered_head a)"
proof -
  obtain r where r: "rendered_head a = ''# '' @ or_default (title a) ''Untitled Article'' @ blank_line @ r"
    and br: "blank_terminated r"
    using rendered_head_shape by blast
  have "suffix blank_line ((''# '' @ or_default (title a) ''Untitled Article'' @ blank_line) @ r)"
    by (rule suffix_blank_append[OF _ br]) (simp add: suffix_def)
  with r show ?thesis by simp
qed

subsection \<open>Chunks in order\<close>

lemma in_order_append_left: "in_order cs y \<Longrightarrow> in_order cs (x @ y)"
proof (cases cs)
  case Nil
  then show ?thesis by simp
next
  case (Cons c cs')
  assume "in_order cs y"
  with Cons obtain pre post where "y = pre @ c @ post" and "in_order cs' post"
    by auto
  then have "x @ y = (x @ pre) @ c @ post \<and> in_order cs' post" by simp
  with Cons show ?thesis by (simp only: in_order.simps) blast
qed

lemma in_order_append:
  "in_order cs1 x \<Longrightarrow> in_order cs2 y \<Longrightarrow> in_order (cs1 @ cs2) (x @ y)"
proof (induction cs1 arbitrary: x)
  case Nil
  then show ?case by (simp add: in_order_append_left)
next
  case (Cons c cs1)
  from Cons.prems(1) obtain pre post where x: "x = pre @ c @ post" and rest: "in_order cs1 post"
    by auto
  from Cons.IH[OF rest Cons.prems(2)] have "in_order (cs1 @ cs2) (post @ y)" .
  moreover from x have "x @ y = pre @ c @ (post @ y)" by simp
  ultimately show ?case by (simp only: append_Cons in_order.simps) blast
qed

lemma in_order_append_right: "in_order cs x \<Longrightarrow> in_order cs (x @ y)"
  using in_order_append[of cs x "[]" y] by simp

lemma text_values_Nil: "text_values [] = []"
  by (simp add: text_values_def List.map_filter_simps)

lemma text_values_Cons:
  "text_values (b # blocks) =
     (if block_type b = Some ''text'' then
        (case block_value b of None \<Rightarrow> text_values blocks | Some v \<Rightarrow> v # text_values blocks)
      else text_values blocks)"
  by (simp add: text_values_def List.map_filter_simps split: option.splits)

lemma in_order_blocks:
  "in_order (map (\<lambda>v. v @ blank_line) (text_values blocks)) (concat (map rendered_block blocks))"
proof (induction blocks)
  case Nil
  show ?case by (simp add: text_values_Nil)
next
  case (Cons b blocks)
  let ?rest = "concat (map rendered_block blocks)"
  show ?case
  proof (cases "block_type b = Some ''text''")
    case False
    with Cons show ?thesis
      by (simp add: text_values_Cons in_order_append_left)
  next
    case True
    show ?thesis
    proof (cases "block_value b")
      case None
      with True Cons show ?thesis
        by (simp add: text_values_Cons in_order_append_left)
    next
      case (Some v)
      with True have "rendered_block b = v @ blank_line"
        by (simp add: rendered_block_def append_block_def interpolate_def)
      then have "concat (map rendered_block (b # blocks)) = [] @ (v @ blank_line) @ ?rest"
        by simp
      with Cons have "\<exists>pre post. concat (map rendered_block (b # blocks)) = pre @ (v @ blank_line) @ post
          \<and> in_order (map (\<lambda>v. v @ blank_line) (text_values blocks)) post"
        by blast
      moreover from True Some have "text_values (b # blocks) = v # text_values blocks"
        by (simp add: text_values_Cons)
      ultimately show ?thesis
        by (simp only: in_order.simps list.map)
    qed
  qed
qed

lemma in_order_section:
  "in_order (map (\<lambda>v. v @ blank_line) (text_values (section_blocks s))) (rendered_section s)"
  unfolding rendered_section_def by (rule in_order_append_left) (rule in_order_blocks)

lemma in_order_sections:
  "in_order (map (\<lambda>v. v @ blank_line) (concat (map (\<lambda>s. text_values (section_blocks s)) ss)))
     (concat (map rendered_section ss))"
proof (induction ss)
  case Nil
  show ?case by simp
next
  case (Cons s ss)
  from in_order_append[OF in_order_section[of s] Cons] show ?case by simp
qed

lemma in_order_article:
  "in_order (map (\<lambda>v. v @ blank_line) (article_text_values a)) (rendered_article a)"
  unfolding rendered_article_def article_text_values_def
  by (intro in_order_append_left in_order_append_right in_order_sections)

text \<open>In a valid article no text block is left out of \<open>text_values\<close>.\<close>

lemma text_values_all:
  "list_all valid_block blocks \<Longrightarrow>
     map Some (text_values blocks) =
       map block_value (filter (\<lambda>b. block_type b = Some ''text'') blocks)"
  by (induction blocks) (auto simp: text_values_Nil text_values_Cons valid_block_def)

lemma valid_section_blocks: "valid_section s \<Longrightarrow> list_all valid_block (section_blocks s)"
  by (cases "content s") (simp_all add: valid_section_def section_blocks_def)

lemma sections_text_values_all:
  "list_all valid_section ss \<Longrightarrow>
     map Some (concat (map (\<lambda>s. text_values (section_blocks s)) ss)) =
       map block_value
         (filter (\<lambda>b. block_type b = Some ''text'') (concat (map section_blocks ss)))"
  by (induction ss) (simp_all add: text_values_all valid_section_blocks)

lemma article_text_values_all:
  assumes "valid_article a"
  shows "map Some (article_text_values a) =
     map block_value
       (filter (\<lambda>b. block_type b = Some ''text'') (concat (map section_blocks (article_sections a))))"
proof -
  from assms have "list_all valid_section (article_sections a)"
    by (cases "sections a") (simp_all add: valid_article_def article_sections_def)
  then show ?thesis
    unfolding article_text_values_def by (rule sections_text_values_all)
qed

subsection \<open>Skipped blocks\<close>

lemma skipped_block_renders_nothing: "skipped_block b \<Longrightarrow> rendered_block b = []"
  by (auto simp: skipped_block_def rendered_block_def append_block_def truthy_def)

lemma concat_map_filter_skipped:
  "concat (map rendered_block (filter (\<lambda>b. \<not> skipped_block b) blocks)) =
     concat (map rendered_block blocks)"
  by (induction blocks) (simp_all add: skipped_block_renders_nothing)

lemma rendered_section_remove_skipped:
  "rendered_section (remove_skipped_section s) = rendered_section s"
  by (cases "content s")
    (simp_all add: rendered_section_def remove_skipped_section_def rendered_heading_def
      section_blocks_def concat_map_filter_skipped)

lemma has_content_remove_skipped: "has_content (remove_skipped_section s) = has_content s"
  by (simp add: has_content_def remove_skipped_section_def)

lemma well_formed_remove_skipped: "well_formed (remove_skipped a) = well_formed a"
  by (cases "sections a")
    (simp_all add: well_formed_def remove_skipped_def list_all_iff has_content_remove_skipped)

lemma rendered_article_remove_skipped: "rendered_article (remove_skipped a) = rendered_article a"
  by (cases "sections a")
    (simp_all add: rendered_article_def remove_skipped_def rendered_head_def article_sections_def
      rendered_section_remove_skipped comp_def)

subsection \<open>Image blocks with an empty url\<close>

lemma empty_url_image_renders_nothing: "empty_url_image b \<Longrightarrow> rendered_block b = []"
  by (simp add: empty_url_image_def rendered_block_def append_block_def truthy_def)

lemma concat_map_filter_empty_url:
  "concat (map rendered_block (filter (\<lambda>b. \<not> empty_url_image b) blocks)) =
     concat (map rendered_block blocks)"
  by (induction blocks) (simp_all add: empty_url_image_renders_nothing)

lemma rendered_section_remove_empty_url:
  "rendered_section (remove_empty_url_section s) = rendered_section s"
  by (cases "content s")
    (simp_all add: rendered_section_def remove_empty_url_section_def rendered_heading_def
      section_blocks_def concat_map_filter_empty_url)

lemma has_content_remove_empty_url: "has_content (remove_empty_url_section s) = has_content s"
  by (simp add: has_content_def remove_empty_url_section_def)

lemma well_formed_remove_empty_url: "well_formed (remove_empty_url_images a) = well_formed a"
  by (cases "sections a")
    (simp_all add: well_formed_def remove_empty_url_images_def list_all_iff
      has_content_remove_empty_url)

lemma rendered_article_remove_empty_url:
  "rendered_article (remove_empty_url_images a) = rendered_article a"
  by (cases "sections a")
    (simp_all add: rendered_article_def remove_empty_url_images_def rendered_head_def
      article_sections_def rendered_section_remove_empty_url comp_def)

lemma serialize_remove_empty_url:
  "formatArticleAsMarkdown (Some (remove_empty_url_images a)) = formatArticleAsMarkdown (Some a)"
  by (simp add: serialize_rendered well_formed_remove_empty_url rendered_article_remove_empty_url)

subsection \<open>The article without its FAQ and conclusion\<close>

lemma well_formed_without_faq:
  "well_formed (a\<lparr>faq_section := None, conclusion := None\<rparr>) = well_formed a"
  by (simp add: well_formed_def)

lemma rendered_article_without_faq:
  "rendered_article a =
     rendered_article (a\<lparr>faq_section := None, conclusion := None\<rparr>) @
     rendered_faq (faq_section a) @ rendered_conclusion (conclusion a)"
  by (simp add: rendered_article_def rendered_head_def article_sections_def rendered_faq_def
      rendered_conclusion_def truthy_def)

subsection \<open>A tidy article ends with exactly two line feeds\<close>
















subsection \<open>The line of an image block\<close>

lemma image_line:
  assumes "well_formed a"
    and "sections a = Some ss" and "s \<in> set ss"
    and "content s = Some blocks" and "b \<in> set blocks"
    and "block_type b = Some ''image''" and "url b = Some u" and "u \<noteq> []"
  shows "\<exists>pre post. formatArticleAsMarkdown (Some a) =
           Inr (pre @ blank_line @
                ''!['' @ (case caption b of None \<Rightarrow> ''Image''
                          | Some c \<Rightarrow> if c = [] then ''Image'' else c) @
                '']('' @ u @ '')'' @ blank_line @ post)"
proof -
  let ?line = "''!['' @ (case caption b of None \<Rightarrow> ''Image''
                          | Some c \<Rightarrow> if c = [] then ''Image'' else c) @ '']('' @ u @ '')''"
  from assms(1) have out: "formatArticleAsMarkdown (Some a) = Inr (rendered_article a)"
    by (simp add: serialize_rendered)
  from assms(3) obtain ss1 ss2 where ss: "ss = ss1 @ s # ss2"
    by (auto simp: in_set_conv_decomp)
  from assms(5) obtain bs1 bs2 where bs: "blocks = bs1 @ b # bs2"
    by (auto simp: in_set_conv_decomp)
  have rb: "rendered_block b = ?line @ blank_line"
    using assms(6-8)
    by (simp add: rendered_block_def append_block_def truthy_def or_default_def interpolate_def
        split: option.splits)
  let ?before = "rendered_head a @ concat (map rendered_section ss1) @ rendered_heading s @
      concat (map rendered_block bs1)"
  let ?after = "concat (map rendered_block bs2) @ concat (map rendered_section ss2) @
      rendered_faq (faq_section a) @ rendered_conclusion (conclusion a)"
  have "rendered_section s = rendered_heading s @ concat (map rendered_block bs1) @
      (?line @ blank_line) @ concat (map rendered_block bs2)"
    using assms(4) bs rb by (simp add: rendered_section_def section_blocks_def)
  then have whole: "rendered_article a = ?before @ ?line @ blank_line @ ?after"
    using assms(2) ss by (simp add: rendered_article_def article_sections_def)
  have "blank_terminated (concat (map rendered_section ss1) @ rendered_heading s @
      concat (map rendered_block bs1))"
    by (intro blank_terminated_append blank_terminated_sections blank_terminated_heading
        blank_terminated_blocks)
  with suffix_blank_head[of a] have "suffix blank_line ?before"
    by (rule suffix_blank_append)
  then obtain pre where "?before = pre @ blank_line"
    by (auto simp: suffix_def)
  with whole have "rendered_article a = pre @ blank_line @ ?line @ blank_line @ ?after"
    by simp
  with out show ?thesis by auto
qed

subsection \<open>The file name\<close>

text \<open>
  After the replacement only ASCII letters, ASCII digits and underscores are left, so
  \<^verbatim>\<open>toLowerCase\<close> changes the letters \<^verbatim>\<open>A\<close> to \<^verbatim>\<open>Z\<close> and nothing else.
\<close>

lemma lower_after_replace:
  "toLowerCase_char (if matches_alnum c then c else CHR ''_'') = sanitise_char c"
  by (simp add: toLowerCase_char_def matches_alnum_def sanitise_char_def Let_def)

lemma toLowerCase_replace: "toLowerCase (replace_non_alnum s) = map sanitise_char s"
  by (simp add: toLowerCase_def replace_non_alnum_def lower_after_replace)

section \<open>Claims\<close>

subsection \<open>C1: the null article\<close>

text \<open>
  C1, as the code has it. For the \<^verbatim>\<open>null\<close> article the guard of line 59 returns the
  empty string: the serializer returns normally and raises nothing.
\<close>

theorem C1_null_article_returns_empty:
  "formatArticleAsMarkdown None = Inr ''''"
  by (simp add: formatArticleAsMarkdown_def)

text \<open>
  C1 as it is stated says that the \<^verbatim>\<open>null\<close> article makes the serializer fault.
  \<open>TypeError\<close> is the only fault of the model, and it is not the result.
\<close>

theorem C1_null_article_no_fault:
  "formatArticleAsMarkdown None \<noteq> Inl TypeError"
  by (simp add: formatArticleAsMarkdown_def)

subsection \<open>C2: when the serializer faults\<close>

text \<open>
  C2, amended. The articles of the theorem are the non-null inputs whose properties,
  where they are there, have the types of the data model: strings for the text fields,
  sequences of objects for \<^verbatim>\<open>sections\<close>, \<^verbatim>\<open>content\<close> and \<^verbatim>\<open>faq_section\<close>. Among
  them, an article without \<^verbatim>\<open>sections\<close> makes the serializer fault; an article whose
  \<^verbatim>\<open>sections\<close> is there and whose every section has its \<^verbatim>\<open>content\<close> (a well-formed
  article) makes it return a string; and an article one of whose sections has no
  \<^verbatim>\<open>content\<close> makes it fault. Nothing is said of an input outside these types, such as
  a sequence with a \<^verbatim>\<open>null\<close> element or a \<^verbatim>\<open>faq_section\<close> that is a string: the
  record types do not hold it.
\<close>

theorem C2_fault_exactly_when_structure_missing:
  "(sections a = None \<longrightarrow> formatArticleAsMarkdown (Some a) = Inl TypeError) \<and>
   (well_formed a \<longrightarrow> (\<exists>out. formatArticleAsMarkdown (Some a) = Inr out)) \<and>
   (\<not> well_formed a \<longrightarrow> formatArticleAsMarkdown (Some a) = Inl TypeError)"
  by (simp add: serialize_rendered well_formed_def)

text \<open>
  Witness of C2: an article without \<^verbatim>\<open>sections\<close>, the well-formed article of the example
  scenario, and an article whose section has no \<^verbatim>\<open>content\<close>.
\<close>

theorem C2_fault_exactly_when_structure_missing_witness:
  "sections no_sections_article = None \<and>
   formatArticleAsMarkdown (Some no_sections_article) = Inl TypeError \<and>
   well_formed mars_article \<and>
   (\<exists>out. formatArticleAsMarkdown (Some mars_article) = Inr out) \<and>
   \<not> well_formed no_content_article \<and>
   formatArticleAsMarkdown (Some no_content_article) = Inl TypeError"
proof -
  have 1: "sections no_sections_article = None"
    by (simp add: no_sections_article_def)
  have 2: "well_formed mars_article"
    by (simp add: well_formed_def mars_article_def has_content_def)
  have 3: "\<not> well_formed no_content_article"
    by (simp add: well_formed_def no_content_article_def has_content_def)
  from 1 2 3 C2_fault_exactly_when_structure_missing[of no_sections_article]
    C2_fault_exactly_when_structure_missing[of mars_article]
    C2_fault_exactly_when_structure_missing[of no_content_article]
  show ?thesis by blast
qed

text \<open>
  C2 as it is stated says that every non-null article with a \<^verbatim>\<open>sections\<close> sequence is
  serialized. The article \<^verbatim>\<open>{title: "Mars", sections: [{heading: "Intro"}]}\<close> has the
  sequence, and \<^verbatim>\<open>section.content.forEach\<close> throws on its section.
\<close>

theorem C2_sections_present_yet_fault:
  "sections no_content_article = Some [\<lparr>heading = Some ''Intro'', content = None\<rparr>] \<and>
   formatArticleAsMarkdown (Some no_content_article) = Inl TypeError"
  by (simp add: formatArticleAsMarkdown_def no_content_article_def append_section_def)

subsection \<open>C3: the title line\<close>

text \<open>
  C3. For every valid article whose title is missing or is the empty string, the output
  begins with the line \<^verbatim>\<open># Untitled Article\<close> and a blank line; for every other valid
  article it begins with \<^verbatim>\<open># \<close>, the title and a blank line.
\<close>

theorem C3_title_line:
  assumes "valid_article a"
  shows "(title a = None \<or> title a = Some [] \<longrightarrow>
            (\<exists>rest. formatArticleAsMarkdown (Some a) =
               Inr (''# Untitled Article'' @ blank_line @ rest))) \<and>
         (\<forall>t. title a = Some t \<and> t \<noteq> [] \<longrightarrow>
            (\<exists>rest. formatArticleAsMarkdown (Some a) = Inr (''# '' @ t @ blank_line @ rest)))"
proof -
  from assms have "formatArticleAsMarkdown (Some a) = Inr (rendered_article a)"
    by (simp add: serialize_rendered valid_article_well_formed)
  moreover obtain rest where
    "rendered_article a = ''# '' @ or_default (title a) ''Untitled Article'' @ blank_line @ rest"
    using rendered_article_shape by blast
  ultimately have "formatArticleAsMarkdown (Some a) =
      Inr (''# '' @ or_default (title a) ''Untitled Article'' @ blank_line @ rest)"
    by simp
  then show ?thesis
    by (auto simp: or_default_def)
qed

text \<open>Witness of C3: a title that is there, and a title that is the empty string.\<close>

theorem C3_title_line_witness:
  "valid_article mars_article \<and> valid_article empty_title_article \<and>
   (\<exists>rest. formatArticleAsMarkdown (Some mars_article) = Inr (''# Mars'' @ blank_line @ rest)) \<and>
   (\<exists>rest. formatArticleAsMarkdown (Some empty_title_article) =
      Inr (''# Untitled Article'' @ blank_line @ rest))"
proof -
  have 1: "valid_article empty_title_article"
    by (simp add: valid_article_def empty_title_article_def)
  have 2: "title mars_article = Some ''Mars''"
    by (simp add: mars_article_def)
  have 3: "title empty_title_article = Some []"
    by (simp add: empty_title_article_def)
  from C3_title_line[OF valid_mars_article] 2
  have "\<exists>rest. formatArticleAsMarkdown (Some mars_article) = Inr (''# Mars'' @ blank_line @ rest)"
    by simp
  moreover from C3_title_line[OF 1] 3
  have "\<exists>rest. formatArticleAsMarkdown (Some empty_title_article) =
      Inr (''# Untitled Article'' @ blank_line @ rest)"
    by simp
  ultimately show ?thesis using valid_mars_article 1 by blast
qed

subsection \<open>C4: the text blocks\<close>

text \<open>
  C4. For every valid article, \<open>article_text_values\<close> lists the value of every text block,
  section by section and block by block, and the output holds each of these values,
  followed by a blank line, one after the other in that order.
\<close>

theorem C4_text_values_in_order:
  assumes "valid_article a"
  shows "map Some (article_text_values a) =
           map block_value
             (filter (\<lambda>b. block_type b = Some ''text'')
               (concat (map section_blocks (article_sections a)))) \<and>
         (\<exists>out. formatArticleAsMarkdown (Some a) = Inr out \<and>
            in_order (map (\<lambda>v. v @ blank_line) (article_text_values a)) out)"
proof -
  from assms have "formatArticleAsMarkdown (Some a) = Inr (rendered_article a)"
    by (simp add: serialize_rendered valid_article_well_formed)
  with in_order_article[of a] article_text_values_all[OF assms] show ?thesis by simp
qed

text \<open>Witness of C4: two text blocks in two sections, with image blocks between them.\<close>

theorem C4_text_values_in_order_witness:
  "valid_article full_article \<and>
   article_text_values full_article = [''Green.'', ''Black.''] \<and>
   (\<exists>out. formatArticleAsMarkdown (Some full_article) = Inr out \<and>
      in_order [''Green.'' @ blank_line, ''Black.'' @ blank_line] out)"
proof -
  have tv: "article_text_values full_article = [''Green.'', ''Black.'']"
    by (simp add: article_text_values_def article_sections_def section_blocks_def
        full_article_def text_values_Cons text_values_Nil)
  from C4_text_values_in_order[OF valid_full_article] tv valid_full_article
  show ?thesis by simp
qed

subsection \<open>C5: the image blocks\<close>

text \<open>
  C5, amended. For every valid article and every image block whose \<^verbatim>\<open>url\<close> is there and
  is not the empty string, the output holds, after a blank line and before a blank line,
  the line \<^verbatim>\<open>![caption](url)\<close>, where the caption is the caption of the block when it is
  there and is not the empty string, and the word \<^verbatim>\<open>Image\<close> otherwise. An image block
  whose \<^verbatim>\<open>url\<close> is the empty string contributes nothing: the serializer gives the same
  result on the article with these blocks removed.
\<close>

theorem C5_image_line:
  assumes "valid_article a"
  shows "(\<forall>ss s blocks b u.
            sections a = Some ss \<and> s \<in> set ss \<and> content s = Some blocks \<and> b \<in> set blocks \<and>
            block_type b = Some ''image'' \<and> url b = Some u \<and> u \<noteq> [] \<longrightarrow>
            (\<exists>pre post. formatArticleAsMarkdown (Some a) =
               Inr (pre @ blank_line @
                    ''!['' @ (case caption b of None \<Rightarrow> ''Image''
                              | Some c \<Rightarrow> if c = [] then ''Image'' else c) @
                    '']('' @ u @ '')'' @ blank_line @ post))) \<and>
         formatArticleAsMarkdown (Some (remove_empty_url_images a)) =
           formatArticleAsMarkdown (Some a)"
  using image_line[OF valid_article_well_formed[OF assms]] serialize_remove_empty_url[of a]
  by blast

text \<open>
  Witness of C5: an image block with a caption and one without, and an article that
  loses an image block whose \<^verbatim>\<open>url\<close> is the empty string.
\<close>

theorem C5_image_line_witness:
  "valid_article full_article \<and>
   (\<exists>pre post. formatArticleAsMarkdown (Some full_article) =
      Inr (pre @ blank_line @ ''![Leaf](http://x/a.png)'' @ blank_line @ post)) \<and>
   (\<exists>pre post. formatArticleAsMarkdown (Some full_article) =
      Inr (pre @ blank_line @ ''![Image](http://x/b.png)'' @ blank_line @ post)) \<and>
   valid_article empty_strings_article \<and>
   map (\<lambda>s. length (section_blocks s)) (article_sections empty_strings_article) = [2] \<and>
   map (\<lambda>s. length (section_blocks s))
     (article_sections (remove_empty_url_images empty_strings_article)) = [1] \<and>
   formatArticleAsMarkdown (Some (remove_empty_url_images empty_strings_article)) =
     formatArticleAsMarkdown (Some empty_strings_article)"
proof -
  let ?leaf = "\<lparr>block_type = Some ''image'', block_value = None,
      url = Some ''http://x/a.png'', caption = Some ''Leaf''\<rparr>"
  let ?bare = "\<lparr>block_type = Some ''image'', block_value = None,
      url = Some ''http://x/b.png'', caption = None\<rparr>"
  note full = C5_image_line[OF valid_full_article]
  note empty = C5_image_line[OF valid_empty_strings_article]
  obtain ss where ss: "sections full_article = Some ss" and
    "\<exists>s \<in> set ss. \<exists>blocks. content s = Some blocks \<and> ?leaf \<in> set blocks" and
    "\<exists>s \<in> set ss. \<exists>blocks. content s = Some blocks \<and> ?bare \<in> set blocks"
    by (simp add: full_article_def)
  then obtain s1 blocks1 s2 blocks2 where
    1: "s1 \<in> set ss" "content s1 = Some blocks1" "?leaf \<in> set blocks1" and
    2: "s2 \<in> set ss" "content s2 = Some blocks2" "?bare \<in> set blocks2"
    by blast
  from full ss 1
  have "\<exists>pre post. formatArticleAsMarkdown (Some full_article) =
      Inr (pre @ blank_line @ ''!['' @ (case caption ?leaf of None \<Rightarrow> ''Image''
                              | Some c \<Rightarrow> if c = [] then ''Image'' else c) @
                    '']('' @ ''http://x/a.png'' @ '')'' @ blank_line @ post)"
    by (intro full[THEN conjunct1, rule_format]) simp
  then have leaf: "\<exists>pre post. formatArticleAsMarkdown (Some full_article) =
      Inr (pre @ blank_line @ ''![Leaf](http://x/a.png)'' @ blank_line @ post)"
    by simp
  from full ss 2
  have "\<exists>pre post. formatArticleAsMarkdown (Some full_article) =
      Inr (pre @ blank_line @ ''!['' @ (case caption ?bare of None \<Rightarrow> ''Image''
                              | Some c \<Rightarrow> if c = [] then ''Image'' else c) @
                    '']('' @ ''http://x/b.png'' @ '')'' @ blank_line @ post)"
    by (intro full[THEN conjunct1, rule_format]) simp
  then have bare: "\<exists>pre post. formatArticleAsMarkdown (Some full_article) =
      Inr (pre @ blank_line @ ''![Image](http://x/b.png)'' @ blank_line @ post)"
    by simp
  have counts: "map (\<lambda>s. length (section_blocks s)) (article_sections empty_strings_article) = [2]"
    "map (\<lambda>s. length (section_blocks s))
       (article_sections (remove_empty_url_images empty_strings_article)) = [1]"
    by (simp_all add: empty_strings_article_def remove_empty_url_images_def
        remove_empty_url_section_def empty_url_image_def article_sections_def section_blocks_def)
  from leaf bare counts empty[THEN conjunct2] valid_full_article valid_empty_strings_article
  show ?thesis by blast
qed

text \<open>
  C5 as it is stated takes the caption whenever it is there, and promises a line for
  every image block whose \<^verbatim>\<open>url\<close> is there. The first image block of
  \<open>empty_strings_article\<close> has the \<^verbatim>\<open>url\<close> \<^verbatim>\<open>m.png\<close> and the empty string as its
  caption: the claim promises \<^verbatim>\<open>![](m.png)\<close>, and the operator \<^verbatim>\<open>||\<close> of line 79 puts
  the word \<^verbatim>\<open>Image\<close>. The second has the caption \<^verbatim>\<open>Pic\<close> and the empty string as its
  \<^verbatim>\<open>url\<close>: the claim promises \<^verbatim>\<open>![Pic]()\<close>, and the test of line 78 fails on the
  empty string. Neither text is in the output.
\<close>

theorem C5_empty_caption_or_url:
  "formatArticleAsMarkdown (Some empty_strings_article) =
     Inr (''# Mars'' @ blank_line @ ''![Image](m.png)'' @ blank_line) \<and>
   \<not> sublist ''![](m.png)'' (''# Mars'' @ blank_line @ ''![Image](m.png)'' @ blank_line) \<and>
   \<not> sublist ''![Pic]()'' (''# Mars'' @ blank_line @ ''![Image](m.png)'' @ blank_line)"
proof -
  have "\<not> sublist ''![](m.png)'' (''# Mars'' @ blank_line @ ''![Image](m.png)'' @ blank_line) \<and>
    \<not> sublist ''![Pic]()'' (''# Mars'' @ blank_line @ ''![Image](m.png)'' @ blank_line)"
    by code_simp
  with empty_strings_output show ?thesis by blast
qed

subsection \<open>C6: the blocks that contribute nothing\<close>

text \<open>
  C6. The blocks whose type is neither \<^verbatim>\<open>text\<close> nor \<^verbatim>\<open>image\<close> and the image blocks
  without \<^verbatim>\<open>url\<close> contribute nothing: the serializer gives the same result on an article
  and on the article with these blocks removed. The equation holds for every non-null
  article, the faulting ones included.
\<close>

theorem C6_skipped_blocks_contribute_nothing:
  "formatArticleAsMarkdown (Some (remove_skipped a)) = formatArticleAsMarkdown (Some a)"
  by (simp add: serialize_rendered well_formed_remove_skipped rendered_article_remove_skipped)

text \<open>
  Witness of C6: the first section of \<open>full_article\<close> loses a block of type \<^verbatim>\<open>video\<close>
  and an image block without \<^verbatim>\<open>url\<close>.
\<close>

theorem C6_skipped_blocks_contribute_nothing_witness:
  "map (\<lambda>s. length (section_blocks s)) (article_sections full_article) = [4, 2] \<and>
   map (\<lambda>s. length (section_blocks s)) (article_sections (remove_skipped full_article)) = [2, 2] \<and>
   formatArticleAsMarkdown (Some (remove_skipped full_article)) =
     formatArticleAsMarkdown (Some full_article)"
  using C6_skipped_blocks_contribute_nothing[of full_article]
  by (simp add: full_article_def remove_skipped_def remove_skipped_section_def skipped_block_def
      article_sections_def section_blocks_def)

subsection \<open>C7: the FAQ\<close>

text \<open>
  C7, amended. For every valid article the output is \<open>pre\<close>, then the FAQ, then the
  conclusion, where \<open>pre\<close> is the output for the article without its FAQ and its
  conclusion. When \<^verbatim>\<open>faq_section\<close> is missing or empty the FAQ is the empty text. When it
  has N entries, N > 0, the FAQ is the heading \<^verbatim>\<open>## Frequently Asked Questions\<close> and a
  blank line, once, and then for each entry, in input order, its \<^verbatim>\<open>* **Q:**\<close> line, its
  \<^verbatim>\<open>**A:**\<close> line and a blank line. (In a valid article \<open>interpolate\<close> gives the question
  and the answer themselves.) Nothing is said of the text outside the FAQ, which is copied
  from the input and may hold such lines of its own.
\<close>

theorem C7_faq_segment:
  assumes "valid_article a"
  shows "\<exists>pre. formatArticleAsMarkdown (Some (a\<lparr>faq_section := None, conclusion := None\<rparr>)) = Inr pre \<and>
     (faq_section a = None \<or> faq_section a = Some [] \<longrightarrow>
        formatArticleAsMarkdown (Some a) = Inr (pre @ rendered_conclusion (conclusion a))) \<and>
     (\<forall>faqs. faq_section a = Some faqs \<and> faqs \<noteq> [] \<longrightarrow>
        formatArticleAsMarkdown (Some a) =
          Inr (pre @ ''## Frequently Asked Questions'' @ blank_line @
               concat (map (\<lambda>faq. ''* **Q:** '' @ interpolate (question faq) @ [CHR 0x0A] @
                                   ''  **A:** '' @ interpolate (answer faq) @ blank_line) faqs) @
               rendered_conclusion (conclusion a)))"
proof -
  let ?pre = "rendered_article (a\<lparr>faq_section := None, conclusion := None\<rparr>)"
  from assms have wf: "well_formed a" by (rule valid_article_well_formed)
  then have "formatArticleAsMarkdown (Some (a\<lparr>faq_section := None, conclusion := None\<rparr>)) = Inr ?pre"
    by (simp add: serialize_rendered well_formed_without_faq)
  moreover from wf have "formatArticleAsMarkdown (Some a) =
      Inr (?pre @ rendered_faq (faq_section a) @ rendered_conclusion (conclusion a))"
    using rendered_article_without_faq[of a] by (simp add: serialize_rendered)
  moreover have "(\<lambda>faq. ''* **Q:** '' @ interpolate (question faq) @ [CHR 0x0A] @
      ''  **A:** '' @ interpolate (answer faq) @ blank_line) = rendered_faq_entry"
    by (rule ext) (simp add: rendered_faq_entry_def)
  ultimately show ?thesis
    by (auto simp: rendered_faq_def)
qed

text \<open>Witness of C7: an FAQ of two entries.\<close>

theorem C7_faq_segment_witness:
  "valid_article full_article \<and>
   (\<exists>pre. formatArticleAsMarkdown (Some (full_article\<lparr>faq_section := None, conclusion := None\<rparr>)) = Inr pre \<and>
      formatArticleAsMarkdown (Some full_article) =
        Inr (pre @ ''## Frequently Asked Questions'' @ blank_line @
             (''* **Q:** Hot?'' @ [CHR 0x0A] @ ''  **A:** Yes.'' @ blank_line) @
             (''* **Q:** Iced?'' @ [CHR 0x0A] @ ''  **A:** Also.'' @ blank_line) @
             ''## Conclusion'' @ blank_line @ ''Bye.'' @ blank_line))"
proof -
  have f: "faq_section full_article =
      Some [\<lparr>question = Some ''Hot?'', answer = Some ''Yes.''\<rparr>,
            \<lparr>question = Some ''Iced?'', answer = Some ''Also.''\<rparr>]"
    and c: "conclusion full_article = Some ''Bye.''"
    by (simp_all add: full_article_def)
  from C7_faq_segment[OF valid_full_article] f c valid_full_article
  show ?thesis
    by (simp add: interpolate_def rendered_conclusion_def truthy_def)
qed

text \<open>
  C7 as it is stated says that the output of an article without FAQ holds no heading
  \<^verbatim>\<open>## Frequently Asked Questions\<close>. The article \<open>faq_subtitle_article\<close> has no FAQ and
  the subtitle \<^verbatim>\<open>Frequently Asked Questions\<close>; line 64 writes the subtitle after
  \<^verbatim>\<open>## \<close>, and the second line of the output is that heading.
\<close>

theorem C7_heading_without_faq:
  "faq_section faq_subtitle_article = None \<and>
   formatArticleAsMarkdown (Some faq_subtitle_article) =
     Inr (''# Mars'' @ blank_line @ ''## Frequently Asked Questions'' @ blank_line)"
  by (simp add: formatArticleAsMarkdown_def faq_subtitle_article_def truthy_def or_default_def
      interpolate_def)

subsection \<open>C8: purity\<close>

text \<open>
  C8 has no theorem. \<open>formatArticleAsMarkdown\<close> is a function of its argument, as every
  constant of the logic is, so that equal arguments give equal results by reflexivity;
  and a write or an input/output action of the JavaScript function has no counterpart
  in the embedding that a theorem could rule out.
\<close>

subsection \<open>C9: the file name of the download\<close>

text \<open>
  C9, amended. The file name is the base name with every character outside the ASCII
  letters and digits replaced by an underscore and every letter in lower case, followed
  by \<^verbatim>\<open>.md\<close>; the base name is the title, and it is \<^verbatim>\<open>article\<close> when the title is missing
  or is the empty string.
\<close>

theorem C9_download_filename:
  "download_filename a =
     map sanitise_char
       (case title a of None \<Rightarrow> ''article'' | Some t \<Rightarrow> if t = [] then ''article'' else t) @
     ''.md''"
  by (simp add: download_filename_def or_default_def toLowerCase_replace split: option.splits)

text \<open>Witness of C9: the title \<^verbatim>\<open>Hello World!\<close>.\<close>

theorem C9_download_filename_witness:
  "download_filename hello_article = ''hello_world_.md''"
proof -
  have "download_filename hello_article = map sanitise_char ''Hello World!'' @ ''.md''"
    using C9_download_filename[of hello_article] by (simp add: hello_article_def)
  also have "map sanitise_char ''Hello World!'' = ''hello_world_''"
    by code_simp
  finally show ?thesis by simp
qed

text \<open>
  C9 as it is stated uses the fallback only when the title is missing. For the title that
  is the empty string the claimed name is \<^verbatim>\<open>.md\<close>; the operator \<^verbatim>\<open>||\<close> of line 113 takes
  the fallback, and the name is \<^verbatim>\<open>article.md\<close>.
\<close>

theorem C9_empty_title_counterexample:
  "title empty_title_article = Some [] \<and>
   download_filename empty_title_article = ''article.md'' \<and>
   claimed_filename empty_title_article = ''.md'' \<and>
   download_filename empty_title_article \<noteq> claimed_filename empty_title_article"
proof -
  have "toLowerCase (replace_non_alnum ''article'') = ''article''"
    by code_simp
  then show ?thesis
    by (simp add: empty_title_article_def download_filename_def claimed_filename_def
        or_default_def)
qed

subsection \<open>C10: the shape of the output\<close>





end
